theory Spec2Isabelle
  imports Complex_Main "HOL-Library.Stream" "HOL-Library.Sublist"
begin

section \<open>Python string primitives used by the engine\<close>

text \<open>
  Strings are ASCII character lists. The engine only relies on the following built-ins of
  \<^verbatim>\<open>str\<close>: \<^verbatim>\<open>split()\<close>, \<^verbatim>\<open>split(',')\<close>, \<^verbatim>\<open>strip()\<close>,
  \<^verbatim>\<open>join\<close>, \<^verbatim>\<open>lower()\<close>, \<^verbatim>\<open>capitalize()\<close>, \<^verbatim>\<open>replace\<close> and the substring test
  \<^verbatim>\<open>in\<close>. Case conversion is modelled on the letters A-Z and a-z, and whitespace is the
  ASCII part of what \<^verbatim>\<open>str.isspace\<close> accepts (code points 9-13, 28-32).
\<close>

definition is_space :: "char \<Rightarrow> bool" where
  "is_space c = (c \<in> set [CHR '' '', CHR 0x09, CHR 0x0A, CHR 0x0B, CHR 0x0C, CHR 0x0D,
                             CHR 0x1C, CHR 0x1D, CHR 0x1E, CHR 0x1F])"

text \<open>\<^verbatim>\<open>s.strip()\<close>\<close>

definition strip :: "string \<Rightarrow> string" where
  "strip s = rev (dropWhile is_space (rev (dropWhile is_space s)))"

text \<open>\<^verbatim>\<open>s.split()\<close>: the maximal runs of non-whitespace characters. The first argument
  is the word being read, reversed.\<close>

fun split_ws_from :: "string \<Rightarrow> string \<Rightarrow> string list" where
  "split_ws_from cur [] = (if cur = [] then [] else [rev cur])"
| "split_ws_from cur (c # cs) =
     (if is_space c
      then (if cur = [] then split_ws_from [] cs else rev cur # split_ws_from [] cs)
      else split_ws_from (c # cur) cs)"

definition split_ws :: "string \<Rightarrow> string list" where
  "split_ws s = split_ws_from [] s"

text \<open>\<^verbatim>\<open>s.split(sep)\<close> for a one-character separator: empty fields are kept.\<close>

fun split_on_from :: "char \<Rightarrow> string \<Rightarrow> string \<Rightarrow> string list" where
  "split_on_from sep cur [] = [rev cur]"
| "split_on_from sep cur (c # cs) =
     (if c = sep then rev cur # split_on_from sep [] cs else split_on_from sep (c # cur) cs)"

definition split_on :: "char \<Rightarrow> string \<Rightarrow> string list" where
  "split_on sep s = split_on_from sep [] s"

text \<open>\<^verbatim>\<open>sep.join(xs)\<close>\<close>

fun join :: "string \<Rightarrow> string list \<Rightarrow> string" where
  "join sep [] = []"
| "join sep [x] = x"
| "join sep (x # y # ys) = x @ sep @ join sep (y # ys)"

definition upper_letters :: string where
  "upper_letters = ''ABCDEFGHIJKLMNOPQRSTUVWXYZ''"

definition lower_letters :: string where
  "lower_letters = ''abcdefghijklmnopqrstuvwxyz''"

definition lower_char :: "char \<Rightarrow> char" where
  "lower_char c = (case map_of (zip upper_letters lower_letters) c of Some d \<Rightarrow> d | None \<Rightarrow> c)"

definition upper_char :: "char \<Rightarrow> char" where
  "upper_char c = (case map_of (zip lower_letters upper_letters) c of Some d \<Rightarrow> d | None \<Rightarrow> c)"

text \<open>\<^verbatim>\<open>s.lower()\<close> and \<^verbatim>\<open>s.capitalize()\<close>\<close>

definition lower :: "string \<Rightarrow> string" where
  "lower s = map lower_char s"

definition capitalize :: "string \<Rightarrow> string" where
  "capitalize s = (case s of [] \<Rightarrow> [] | c # cs \<Rightarrow> upper_char c # map lower_char cs)"

text \<open>\<^verbatim>\<open>sub in s\<close>\<close>

fun contains :: "string \<Rightarrow> string \<Rightarrow> bool" where
  "contains sub [] = (sub = [])"
| "contains sub (c # cs) = (prefix sub (c # cs) \<or> contains sub cs)"

text \<open>\<^verbatim>\<open>s.replace(old, new)\<close> for a non-empty \<^verbatim>\<open>old\<close> (every call of the engine passes a
  non-empty constant): occurrences are replaced from left to right without overlap. The
  recursion runs on the text, the pattern still to be skipped is counted down.\<close>

fun replace_from :: "string \<Rightarrow> string \<Rightarrow> nat \<Rightarrow> string \<Rightarrow> string" where
  "replace_from old new k [] = []"
| "replace_from old new (Suc k) (c # cs) = replace_from old new k cs"
| "replace_from old new 0 (c # cs) =
     (if old \<noteq> [] \<and> prefix old (c # cs)
      then new @ replace_from old new (length old - 1) cs
      else c # replace_from old new 0 cs)"

definition replace :: "string \<Rightarrow> string \<Rightarrow> string \<Rightarrow> string" where
  "replace old new s = replace_from old new 0 s"

text \<open>\<^verbatim>\<open>s.replace(old, new, 1)\<close>: only the first occurrence.\<close>

fun replace_first :: "string \<Rightarrow> string \<Rightarrow> string \<Rightarrow> string" where
  "replace_first old new [] = []"
| "replace_first old new (c # cs) =
     (if old \<noteq> [] \<and> prefix old (c # cs)
      then new @ drop (length old) (c # cs)
      else c # replace_first old new cs)"

section \<open>The random source\<close>

text \<open>
  The engine draws from the process-wide generator of Python's \<^verbatim>\<open>random\<close> module. The
  generator is an explicit stream of draws from \<open>[0, 1)\<close>, threaded through every
  function: each call of \<^verbatim>\<open>random.random()\<close>, \<^verbatim>\<open>random.choice\<close> or
  \<^verbatim>\<open>random.randint\<close> takes the next draw. \<^verbatim>\<open>choice\<close> and \<^verbatim>\<open>randint\<close> scale the
  draw to the index range. Floating-point numbers are modelled as reals.
\<close>

type_synonym rng = "real stream"

definition random :: "rng \<Rightarrow> real \<times> rng" where
  "random r = (shd r, stl r)"

definition choice :: "'a list \<Rightarrow> rng \<Rightarrow> 'a \<times> rng" where
  "choice xs r = (xs ! nat \<lfloor>shd r * real (length xs)\<rfloor>, stl r)"

definition randint :: "int \<Rightarrow> int \<Rightarrow> rng \<Rightarrow> int \<times> rng" where
  "randint a b r = (a + \<lfloor>shd r * real_of_int (b - a + 1)\<rfloor>, stl r)"

section \<open>The humanizer engine\<close>

text \<open>
  The exceptions that the modelled code raises or receives. \<open>ProviderError\<close> stands for
  any exception raised inside an external model call.
\<close>

datatype error = RuntimeError | ValueError | IndexError | ProviderError

text \<open>
  The pretrained models are external collaborators; the engine holds them as functions.
  \<^item> \<open>paraphrase_call input max_length temperature\<close> is the T5 tokenizer, generator
    and decoder of \<^verbatim>\<open>_paraphrase_sentence\<close>; it may raise.
  \<^item> \<open>nlp sentence\<close> is the spaCy pipeline: the tokens of the sentence in order, each with
    its text and its part-of-speech tag; a token's index \<^verbatim>\<open>token.i\<close> is its position.
  \<^item> \<open>cosine a b\<close> is the cosine similarity of the sentence embeddings of \<open>a\<close> and \<open>b\<close>
    (\<^verbatim>\<open>semantic_encoder.encode\<close> followed by the numpy quotient).
  Loading the models (\<^verbatim>\<open>_load_models\<close>) is taken to have succeeded.
\<close>

record backend =
  paraphrase_call :: "string \<Rightarrow> nat \<Rightarrow> real \<Rightarrow> error + string"
  nlp :: "string \<Rightarrow> (string \<times> string) list"
  cosine :: "string \<Rightarrow> string \<Rightarrow> real"

record engine =
  device :: string
  model_size :: string
  techniques :: "string list"
  models :: backend

text \<open>
  The environment of a constructor call: whether CUDA is available, and the models that a
  model size selects (\<^verbatim>\<open>_init_models\<close>).
\<close>

record environment =
  cuda_available :: bool
  load_models :: "string \<Rightarrow> backend"

definition default_techniques :: "string list" where
  "default_techniques =
     [''sentence_variation'', ''perplexity_modulation'', ''stylistic_injection'',
      ''semantic_paraphrasing'', ''human_patterns'']"

text \<open>\<^verbatim>\<open>HumanizerEngine.__init__\<close>: \<^verbatim>\<open>techniques or [...]\<close> takes the default list for
  \<^verbatim>\<open>None\<close> and for the empty list.\<close>

definition HumanizerEngine :: "environment \<Rightarrow> bool \<Rightarrow> string \<Rightarrow> string list option \<Rightarrow> engine" where
  "HumanizerEngine env use_gpu msize ts =
     \<lparr> device = (if use_gpu \<and> cuda_available env then ''cuda'' else ''cpu''),
       model_size = msize,
       techniques = (case ts of None \<Rightarrow> default_techniques
                     | Some l \<Rightarrow> if l = [] then default_techniques else l),
       models = load_models env msize \<rparr>"

subsection \<open>Pattern banks\<close>

definition transitions :: "string list" where
  "transitions =
     [''Actually,'', ''You know,'', ''To be honest,'', ''Interestingly,'',
      ''Here's the thing:'', ''The way I see it,'', ''From my perspective,'',
      ''Let me explain:'', ''Basically,'', ''In other words,'', ''Simply put,'',
      ''Well,'', ''So,'', ''Now,'', ''Look,'', ''See,'', ''Anyway,'', ''Besides,'']"

definition fillers :: "string list" where
  "fillers =
     [''kind of'', ''sort of'', ''pretty much'', ''more or less'', ''essentially'',
      ''basically'', ''actually'', ''really'', ''quite'', ''rather'', ''somewhat'',
      ''perhaps'', ''maybe'', ''probably'', ''I think'', ''I believe'', ''it seems'']"

definition personal_touches :: "string list" where
  "personal_touches =
     [''I'd say'', ''I mean'', ''if you ask me'', ''in my experience'',
      ''from what I've seen'', ''personally'', ''honestly'']"

definition imperfections :: "(string \<times> string \<times> real) list" where
  "imperfections =
     [(''it's'', ''its'', 0.02), (''their'', ''there'', 0.01),
      (''effect'', ''affect'', 0.01), (''who'', ''that'', 0.03)]"

definition contractions :: "(string \<times> string) list" where
  "contractions =
     [(''it is'', ''it's''), (''is not'', ''isn't''), (''cannot'', ''can't''),
      (''will not'', ''won't''), (''do not'', ''don't''), (''I am'', ''I'm''),
      (''you are'', ''you're''), (''they are'', ''they're'')]"

definition questions :: "string list" where
  "questions =
     [''You know what?'', ''But here's the question:'',
      ''Want to know something interesting?'', ''Guess what?'']"

definition synonyms :: "(string \<times> string list) list" where
  "synonyms =
     [(''good'', [''great'', ''fine'', ''nice'', ''excellent'', ''solid'']),
      (''bad'', [''poor'', ''terrible'', ''awful'', ''lousy'']),
      (''big'', [''large'', ''huge'', ''massive'', ''enormous'']),
      (''small'', [''little'', ''tiny'', ''minor'', ''slight'']),
      (''fast'', [''quick'', ''rapid'', ''speedy'', ''swift'']),
      (''slow'', [''gradual'', ''leisurely'', ''sluggish''])]"

text \<open>\<^verbatim>\<open>_get_simple_synonyms\<close>: \<^verbatim>\<open>synonyms.get(word.lower(), [])\<close>\<close>

definition get_simple_synonyms :: "string \<Rightarrow> string list" where
  "get_simple_synonyms word = (case map_of synonyms (lower word) of Some l \<Rightarrow> l | None \<Rightarrow> [])"

subsection \<open>Sentence splitting\<close>

text \<open>
  \<^verbatim>\<open>re.split(r'(?<=[.!?])\s+', text)\<close>: the text is cut at every maximal run of
  whitespace that follows one of the three marks; the run is removed. The first argument is
  the piece being read, reversed.
\<close>

function re_split_from :: "string \<Rightarrow> string \<Rightarrow> string list" where
  "re_split_from cur [] = [rev cur]"
| "re_split_from cur (c # cs) =
     (if c \<in> set ''.!?'' \<and> cs \<noteq> [] \<and> is_space (hd cs)
      then rev (c # cur) # re_split_from [] (dropWhile is_space cs)
      else re_split_from (c # cur) cs)"
  by pat_completeness auto
termination
  by (relation "measure (\<lambda>(cur, s). length s)") (auto simp: length_dropWhile_le less_Suc_eq_le)

text \<open>\<^verbatim>\<open>_split_sentences\<close>\<close>

definition split_sentences :: "string \<Rightarrow> string list" where
  "split_sentences text = map strip (filter (\<lambda>s. strip s \<noteq> []) (re_split_from [] text))"

subsection \<open>Techniques\<close>

text \<open>\<^verbatim>\<open>_paraphrase_sentence\<close>: any exception of the model call is caught and the sentence is
  returned as it is.\<close>

definition paraphrase_sentence :: "engine \<Rightarrow> string \<Rightarrow> real \<Rightarrow> rng \<Rightarrow> string \<times> rng" where
  "paraphrase_sentence eng sentence intensity r =
     (let (u, r1) = random r in
      if u > intensity then (sentence, r1)
      else (case paraphrase_call (models eng) (''paraphrase: '' @ sentence)
                   (length (split_ws sentence) * 2) (0.7 + intensity * 0.5) of
              Inr paraphrased \<Rightarrow> (paraphrased, r1)
            | Inl e \<Rightarrow> (sentence, r1)))"

text \<open>The first loop of \<^verbatim>\<open>_vary_sentence_structure\<close>: the first index of
  \<^verbatim>\<open>range(mid - 3, mid + 3)\<close> that holds a split word (the caller has more than 15 words,
  so \<open>mid - 3\<close> is at least 5).\<close>

definition split_long :: "string list \<Rightarrow> string \<Rightarrow> string" where
  "split_long ws sentence =
     (let mid = length ws div 2 in
      case find (\<lambda>i. i < length ws \<and>
                      ws ! i \<in> set ['','', ''and'', ''but'', ''or'', ''while'', ''although''])
                [mid - 3 ..< mid + 3] of
        None \<Rightarrow> sentence
      | Some i \<Rightarrow> join '' '' (take i ws) @ ''. '' @ capitalize (join '' '' (drop (i + 1) ws)))"

text \<open>\<^verbatim>\<open>_vary_sentence_structure\<close>\<close>

definition vary_sentence_structure :: "string \<Rightarrow> real \<Rightarrow> rng \<Rightarrow> string \<times> rng" where
  "vary_sentence_structure sentence intensity r =
     (let ws = split_ws sentence;
          (sentence1, r1) =
            (if length ws > 15
             then (let (u, r') = random r in
                   if u < intensity * 0.5 then (split_long ws sentence, r') else (sentence, r'))
             else (sentence, r))
      in if contains '','' sentence1
         then (let (u, r') = random r1 in
               if u < intensity * 0.3
               then (let parts = split_on CHR '','' sentence1 in
                     if length parts = 2
                     then (capitalize (strip (parts ! 1)) @ '', '' @ lower (strip (parts ! 0)), r')
                     else (sentence1, r'))
               else (sentence1, r'))
         else (sentence1, r1))"

text \<open>The token loop of \<^verbatim>\<open>_modulate_perplexity\<close>. \<open>i\<close> is \<^verbatim>\<open>token.i\<close>. The
  assignment \<^verbatim>\<open>words[token.i] = ...\<close> raises \<^verbatim>\<open>IndexError\<close> when the token index is
  not an index of the whitespace-separated words.\<close>

fun modulate_tokens ::
  "(string \<times> string) list \<Rightarrow> nat \<Rightarrow> real \<Rightarrow> string list \<Rightarrow> rng \<Rightarrow> error + (string list \<times> rng)" where
  "modulate_tokens [] i intensity ws r = Inr (ws, r)"
| "modulate_tokens ((txt, pos) # toks) i intensity ws r =
     (let (u, r1) = random r in
      if u < intensity * 0.1
      then (if pos \<in> set [''NOUN'', ''VERB'', ''ADJ'', ''ADV'']
            then (let syns = get_simple_synonyms txt in
                  if syns \<noteq> []
                  then (let (w, r2) = choice syns r1 in
                        if i < length ws
                        then modulate_tokens toks (Suc i) intensity (ws[i := w]) r2
                        else Inl IndexError)
                  else modulate_tokens toks (Suc i) intensity ws r1)
            else modulate_tokens toks (Suc i) intensity ws r1)
      else modulate_tokens toks (Suc i) intensity ws r1)"

text \<open>\<^verbatim>\<open>_modulate_perplexity\<close>\<close>

definition modulate_perplexity :: "engine \<Rightarrow> string \<Rightarrow> real \<Rightarrow> rng \<Rightarrow> error + (string \<times> rng)" where
  "modulate_perplexity eng sentence intensity r =
     (case modulate_tokens (nlp (models eng) sentence) 0 intensity (split_ws sentence) r of
        Inl e \<Rightarrow> Inl e
      | Inr (ws, r') \<Rightarrow> Inr (join '' '' ws, r'))"

text \<open>\<^verbatim>\<open>_inject_style\<close>\<close>

definition inject_style :: "string \<Rightarrow> real \<Rightarrow> rng \<Rightarrow> string \<times> rng" where
  "inject_style sentence intensity r =
     (let (u, r1) = random r in
      if u > intensity then (sentence, r1)
      else
        (let (u2, r2) = random r1;
             (sentence1, r3) =
               (if u2 < 0.1
                then (let (q, r') = choice questions r2 in (q @ '' '' @ sentence, r'))
                else (sentence, r2));
             ws = split_ws sentence1;
             (ws1, r5) =
               (if length ws > 5
                then (let (u3, r4) = random r3 in
                      if u3 < 0.15
                      then (let (idx, r') = randint 1 (int (length ws) - 2) r4 in
                            if ws ! nat idx \<notin> set [''the'', ''a'', ''an'', ''and'', ''or'', ''but'']
                            then (ws[nat idx := ''*'' @ ws ! nat idx @ ''*''], r')
                            else (ws, r'))
                      else (ws, r4))
                else (ws, r3))
         in (join '' '' ws1, r5)))"

text \<open>The loop over the imperfection patterns: a draw is taken only for a pattern that
  occurs in the sentence.\<close>

fun apply_imperfections :: "(string \<times> string \<times> real) list \<Rightarrow> string \<Rightarrow> rng \<Rightarrow> string \<times> rng" where
  "apply_imperfections [] sentence r = (sentence, r)"
| "apply_imperfections ((correct, variant, chance) # ps) sentence r =
     (if contains correct sentence
      then (let (u, r') = random r in
            if u < chance then apply_imperfections ps (replace_first correct variant sentence) r'
            else apply_imperfections ps sentence r')
      else apply_imperfections ps sentence r)"

text \<open>\<^verbatim>\<open>_add_human_patterns\<close>. \<^verbatim>\<open>words.insert(pos, filler)\<close> puts the filler before
  position \<open>pos\<close>.\<close>

definition add_human_patterns :: "string \<Rightarrow> real \<Rightarrow> rng \<Rightarrow> string \<times> rng" where
  "add_human_patterns sentence intensity r =
     (let (u1, r1) = random r;
          (s1, r2) =
            (if u1 < intensity * 0.2
             then (let (filler, ra) = choice fillers r1;
                       ws = split_ws sentence in
                   if length ws > 3
                   then (let (pos, rb) = randint 1 (int (length ws) - 1) ra in
                         (join '' '' (take (nat pos) ws @ [filler] @ drop (nat pos) ws), rb))
                   else (sentence, ra))
             else (sentence, r1));
          (u2, r3) = random r2;
          s2 = (if u2 < intensity * 0.4
                then foldl (\<lambda>s (formal, informal). replace formal informal s) s1 contractions
                else s1);
          (u3, r4) = random r3;
          (s3, r5) = (if u3 < intensity * 0.05 then apply_imperfections imperfections s2 r4
                      else (s2, r4));
          (u4, r6) = random r5
      in if u4 < intensity * 0.15
         then (let (touch, rc) = choice personal_touches r6 in (touch @ '', '' @ lower s3, rc))
         else (s3, r6))"

subsection \<open>Paragraph composition\<close>

text \<open>The loop of \<^verbatim>\<open>_create_paragraph_variation\<close>. The test \<^verbatim>\<open>i == len(sentences) - 1\<close>
  holds exactly when no sentence is left. The result is the pair of \<^verbatim>\<open>result\<close> and
  \<^verbatim>\<open>paragraph\<close> after the loop.\<close>

fun paragraph_loop ::
  "real \<Rightarrow> string list \<Rightarrow> string list \<Rightarrow> string list \<Rightarrow> rng \<Rightarrow> (string list \<times> string list) \<times> rng" where
  "paragraph_loop intensity [] paragraph result r = ((result, paragraph), r)"
| "paragraph_loop intensity (sentence # rest) paragraph result r =
     (let paragraph1 = paragraph @ [sentence];
          (para_length, r') = (if intensity > 0.5 then randint 2 5 r else randint 3 6 r)
      in if int (length paragraph1) \<ge> para_length \<or> rest = []
         then paragraph_loop intensity rest [] (result @ [join '' '' paragraph1]) r'
         else paragraph_loop intensity rest paragraph1 result r')"

definition paragraph_break :: string where
  "paragraph_break = [CHR 0x0A, CHR 0x0A]"

text \<open>\<^verbatim>\<open>_create_paragraph_variation\<close>\<close>

definition create_paragraph_variation :: "string list \<Rightarrow> real \<Rightarrow> rng \<Rightarrow> string \<times> rng" where
  "create_paragraph_variation sentences intensity r =
     (let ((result, paragraph), r') = paragraph_loop intensity sentences [] [] r;
          result1 = (if paragraph \<noteq> [] then result @ [join '' '' paragraph] else result)
      in if length result1 > 1 then (join paragraph_break result1, r')
         else (join '' '' sentences, r'))"

subsection \<open>The two pipelines\<close>

text \<open>One iteration of the loop of \<^verbatim>\<open>_fast_humanize\<close>, for the sentence at index
  \<open>i\<close>.\<close>

definition fast_sentence :: "engine \<Rightarrow> nat \<Rightarrow> string \<Rightarrow> real \<Rightarrow> rng \<Rightarrow> string \<times> rng" where
  "fast_sentence eng i sentence intensity r =
     (let (s1, r1) = (if ''sentence_variation'' \<in> set (techniques eng)
                      then vary_sentence_structure sentence intensity r else (sentence, r));
          (s2, r2) = (if ''human_patterns'' \<in> set (techniques eng)
                      then add_human_patterns s1 intensity r1 else (s1, r1))
      in if i > 0
         then (let (u, r3) = random r2 in
               if u < intensity * 0.3
               then (let (t, r4) = choice transitions r3 in (t @ '' '' @ lower s2, r4))
               else (s2, r3))
         else (s2, r2))"

fun fast_loop :: "engine \<Rightarrow> real \<Rightarrow> nat \<Rightarrow> string list \<Rightarrow> rng \<Rightarrow> string list \<times> rng" where
  "fast_loop eng intensity i [] r = ([], r)"
| "fast_loop eng intensity i (sentence # rest) r =
     (let (s, r1) = fast_sentence eng i sentence intensity r;
          (ss, r2) = fast_loop eng intensity (Suc i) rest r1
      in (s # ss, r2))"

text \<open>\<^verbatim>\<open>_fast_humanize\<close>\<close>

definition fast_humanize :: "engine \<Rightarrow> string list \<Rightarrow> real \<Rightarrow> rng \<Rightarrow> string \<times> rng" where
  "fast_humanize eng sentences intensity r =
     (let (result, r1) = fast_loop eng intensity 0 sentences r
      in create_paragraph_variation result intensity r1)"

text \<open>The technique steps of one iteration of the loop of \<^verbatim>\<open>_full_humanize\<close>. Only
  \<^verbatim>\<open>_modulate_perplexity\<close> can raise; nothing catches it.\<close>

definition apply_techniques :: "engine \<Rightarrow> string \<Rightarrow> real \<Rightarrow> rng \<Rightarrow> error + (string \<times> rng)" where
  "apply_techniques eng sentence intensity r =
     (let (s1, r1) = (if ''semantic_paraphrasing'' \<in> set (techniques eng)
                      then paraphrase_sentence eng sentence intensity r else (sentence, r));
          (s2, r2) = (if ''sentence_variation'' \<in> set (techniques eng)
                      then vary_sentence_structure s1 intensity r1 else (s1, r1))
      in case (if ''perplexity_modulation'' \<in> set (techniques eng)
               then modulate_perplexity eng s2 intensity r2 else Inr (s2, r2)) of
           Inl e \<Rightarrow> Inl e
         | Inr (s3, r3) \<Rightarrow>
             (let (s4, r4) = (if ''stylistic_injection'' \<in> set (techniques eng)
                              then inject_style s3 intensity r3 else (s3, r3))
              in Inr (if ''human_patterns'' \<in> set (techniques eng)
                      then add_human_patterns s4 intensity r4 else (s4, r4))))"

text \<open>One whole iteration: the technique steps, then the check of semantic preservation
  against the original sentence \<^verbatim>\<open>sentences[i]\<close>.\<close>

definition full_sentence :: "engine \<Rightarrow> string \<Rightarrow> real \<Rightarrow> bool \<Rightarrow> rng \<Rightarrow> error + (string \<times> rng)" where
  "full_sentence eng original intensity preserve_meaning r =
     (case apply_techniques eng original intensity r of
        Inl e \<Rightarrow> Inl e
      | Inr (sentence, r1) \<Rightarrow>
          (if preserve_meaning
           then (if cosine (models eng) original sentence < 0.7
                 then Inr (add_human_patterns original (intensity * 0.5) r1)
                 else Inr (sentence, r1))
           else Inr (sentence, r1)))"

fun full_loop :: "engine \<Rightarrow> real \<Rightarrow> bool \<Rightarrow> string list \<Rightarrow> rng \<Rightarrow> error + (string list \<times> rng)" where
  "full_loop eng intensity preserve_meaning [] r = Inr ([], r)"
| "full_loop eng intensity preserve_meaning (sentence # rest) r =
     (case full_sentence eng sentence intensity preserve_meaning r of
        Inl e \<Rightarrow> Inl e
      | Inr (s, r1) \<Rightarrow>
          (case full_loop eng intensity preserve_meaning rest r1 of
             Inl e \<Rightarrow> Inl e
           | Inr (ss, r2) \<Rightarrow> Inr (s # ss, r2)))"

text \<open>\<^verbatim>\<open>_full_humanize\<close>\<close>

definition full_humanize :: "engine \<Rightarrow> string list \<Rightarrow> real \<Rightarrow> bool \<Rightarrow> rng \<Rightarrow> error + (string \<times> rng)" where
  "full_humanize eng sentences intensity preserve_meaning r =
     (case full_loop eng intensity preserve_meaning sentences r of
        Inl e \<Rightarrow> Inl e
      | Inr (result, r1) \<Rightarrow> Inr (create_paragraph_variation result intensity r1))"

text \<open>\<^verbatim>\<open>HumanizerEngine.humanize\<close>\<close>

definition humanize :: "engine \<Rightarrow> string \<Rightarrow> real \<Rightarrow> bool \<Rightarrow> bool \<Rightarrow> rng \<Rightarrow> error + (string \<times> rng)" where
  "humanize eng text intensity preserve_meaning fast_mode r =
     (let sentences = split_sentences text in
      if fast_mode then Inr (fast_humanize eng sentences intensity r)
      else full_humanize eng sentences intensity preserve_meaning r)"

section \<open>The humanizer service\<close>

text \<open>The three engines of the service are shared by all requests. The service is a
  record that holds them; a function that changes an engine returns the changed service.\<close>

record service =
  fast_humanizer :: "engine option"
  standard_humanizer :: "engine option"
  advanced_humanizer :: "engine option"
  initialized :: bool

record settings =
  USE_GPU :: bool
  MODEL_SIZE_FAST :: string
  MODEL_SIZE_BALANCED :: string
  MODEL_SIZE_QUALITY :: string

text \<open>\<^verbatim>\<open>HumanizerService.__init__\<close>\<close>

definition HumanizerService :: service where
  "HumanizerService =
     \<lparr> fast_humanizer = None, standard_humanizer = None, advanced_humanizer = None,
       initialized = False \<rparr>"

text \<open>\<^verbatim>\<open>HumanizerService.initialize\<close>\<close>

definition initialize :: "environment \<Rightarrow> settings \<Rightarrow> service \<Rightarrow> service" where
  "initialize env cfg svc =
     (if initialized svc then svc
      else svc\<lparr>
        fast_humanizer := Some (HumanizerEngine env False (MODEL_SIZE_FAST cfg)
          (Some [''sentence_variation'', ''human_patterns''])),
        standard_humanizer := Some (HumanizerEngine env (USE_GPU cfg \<and> cuda_available env)
          (MODEL_SIZE_BALANCED cfg)
          (Some [''sentence_variation'', ''human_patterns'', ''semantic_paraphrasing''])),
        advanced_humanizer := Some (HumanizerEngine env (USE_GPU cfg \<and> cuda_available env)
          (MODEL_SIZE_QUALITY cfg)
          (Some [''sentence_variation'', ''perplexity_modulation'', ''stylistic_injection'',
                 ''semantic_paraphrasing'', ''human_patterns''])),
        initialized := True \<rparr>)"

text \<open>\<^verbatim>\<open>HumanizerService.get_humanizer\<close>. The attribute that is returned may still be
  \<^verbatim>\<open>None\<close>.\<close>

definition get_humanizer :: "service \<Rightarrow> string \<Rightarrow> error + engine option" where
  "get_humanizer svc m =
     (if \<not> initialized svc then Inl RuntimeError
      else if m = ''fast'' then Inr (fast_humanizer svc)
      else if m = ''balanced'' then Inr (standard_humanizer svc)
      else if m = ''quality'' then Inr (advanced_humanizer svc)
      else Inl ValueError)"

text \<open>The engine object that \<^verbatim>\<open>get_humanizer\<close> returned is the one the service holds: an
  assignment to one of its attributes is an update of the service.\<close>

definition put_humanizer :: "service \<Rightarrow> string \<Rightarrow> engine \<Rightarrow> service" where
  "put_humanizer svc m eng =
     (if m = ''fast'' then svc\<lparr>fast_humanizer := Some eng\<rparr>
      else if m = ''balanced'' then svc\<lparr>standard_humanizer := Some eng\<rparr>
      else if m = ''quality'' then svc\<lparr>advanced_humanizer := Some eng\<rparr>
      else svc)"

section \<open>The endpoints\<close>

subsection \<open>Detection evasion\<close>

text \<open>\<^verbatim>\<open>DetectionEvasion.vary_punctuation\<close>. The dashes are the UTF-8 bytes of U+2014 and
  U+2013. The quote replacement of the source puts a straight quote for a straight
  quote.\<close>

definition vary_punctuation :: "string \<Rightarrow> rng \<Rightarrow> string \<times> rng" where
  "vary_punctuation text r =
     (let (u, r1) = random r;
          text1 = replace '' - ''
                    (if u < 0.5 then [CHR '' '', CHR 0xE2, CHR 0x80, CHR 0x94, CHR '' '']
                     else [CHR '' '', CHR 0xE2, CHR 0x80, CHR 0x93, CHR '' '']) text
      in if contains [CHR 0x22] text1
         then (let (u2, r2) = random r1 in
               if u2 < 0.3
               then (replace_first [CHR 0x22] [CHR 0x22]
                       (replace_first [CHR 0x22] [CHR 0x22] text1), r2)
               else (text1, r2))
         else (text1, r1))"

text \<open>\<^verbatim>\<open>DetectionEvasion.add_unicode_variations\<close> with the default rate; the inserted
  character is U+200B.\<close>

definition add_unicode_variations :: "string \<Rightarrow> rng \<Rightarrow> string \<times> rng" where
  "add_unicode_variations text r =
     (let (u, r1) = random r in
      if u < 0.001
      then (replace_first '' '' [CHR '' '', CHR 0xE2, CHR 0x80, CHR 0x8B] text, r1)
      else (text, r1))"

subsection \<open>Single-text endpoint\<close>

text \<open>
  \<^verbatim>\<open>HumanizeRequest\<close> as the handler receives it. The result cache is taken to be
  unavailable (\<^verbatim>\<open>get_cache_service\<close> returns \<^verbatim>\<open>None\<close>), so every request is computed. The
  similarity score of the response comes from a separate encoder and is left out.
\<close>

record humanize_request =
  req_text :: string
  req_mode :: string
  req_intensity :: real
  req_preserve_meaning :: bool
  req_techniques :: "string list option"

record humanize_response =
  original_text :: string
  humanized_text :: string
  resp_mode :: string
  techniques_applied :: "string list"

datatype http_error = HTTPException nat

text \<open>
  \<^verbatim>\<open>humanize_text\<close>. The result is the service after the call, and the response with the
  generator after the call or the HTTP error. \<^verbatim>\<open>if request.techniques\<close> holds for a
  non-empty list. A \<^verbatim>\<open>ValueError\<close> becomes status 400, every other exception status 500; an
  engine attribute that is \<^verbatim>\<open>None\<close> fails at the first attribute access.
\<close>

definition humanize_text ::
  "service \<Rightarrow> humanize_request \<Rightarrow> rng \<Rightarrow> service \<times> (http_error + (humanize_response \<times> rng))" where
  "humanize_text svc request r =
     (case get_humanizer svc (req_mode request) of
        Inl ValueError \<Rightarrow> (svc, Inl (HTTPException 400))
      | Inl e \<Rightarrow> (svc, Inl (HTTPException 500))
      | Inr None \<Rightarrow> (svc, Inl (HTTPException 500))
      | Inr (Some humanizer0) \<Rightarrow>
          (let fast_mode = (req_mode request = ''fast'');
               (humanizer, svc1) =
                 (case req_techniques request of
                    None \<Rightarrow> (humanizer0, svc)
                  | Some ts \<Rightarrow>
                      if ts \<noteq> []
                      then (humanizer0\<lparr>techniques := ts\<rparr>,
                            put_humanizer svc (req_mode request) (humanizer0\<lparr>techniques := ts\<rparr>))
                      else (humanizer0, svc))
           in case humanize humanizer (req_text request) (req_intensity request)
                     (req_preserve_meaning request) fast_mode r of
                Inl ValueError \<Rightarrow> (svc1, Inl (HTTPException 400))
              | Inl e \<Rightarrow> (svc1, Inl (HTTPException 500))
              | Inr (humanized, r1) \<Rightarrow>
                  (let (humanized1, r2) = vary_punctuation humanized r1;
                       (humanized2, r3) = (if req_intensity request > 0.8
                                           then add_unicode_variations humanized1 r2
                                           else (humanized1, r2))
                   in (svc1, Inr (\<lparr> original_text = req_text request,
                                     humanized_text = humanized2,
                                     resp_mode = req_mode request,
                                     techniques_applied = techniques humanizer \<rparr>, r3)))))"

subsection \<open>Batch endpoint\<close>






subsection \<open>WebSocket endpoint\<close>


section \<open>The ordering contract, as the specification words it\<close>

text \<open>
  The specification describes the per-sentence pipeline as the enabled techniques applied
  in one fixed sequence. \<open>run_chain\<close> is that description: it applies a list of technique
  names from left to right, each to the output of the one before. It is compared below
  with \<open>apply_techniques\<close> and \<open>fast_sentence\<close>, which follow the source.
\<close>

definition fixed_order :: "string list" where
  "fixed_order =
     [''semantic_paraphrasing'', ''sentence_variation'', ''perplexity_modulation'',
      ''stylistic_injection'', ''human_patterns'']"

definition technique :: "engine \<Rightarrow> string \<Rightarrow> string \<Rightarrow> real \<Rightarrow> rng \<Rightarrow> error + (string \<times> rng)" where
  "technique eng name sentence intensity r =
     (if name = ''semantic_paraphrasing'' then Inr (paraphrase_sentence eng sentence intensity r)
      else if name = ''sentence_variation'' then Inr (vary_sentence_structure sentence intensity r)
      else if name = ''perplexity_modulation'' then modulate_perplexity eng sentence intensity r
      else if name = ''stylistic_injection'' then Inr (inject_style sentence intensity r)
      else if name = ''human_patterns'' then Inr (add_human_patterns sentence intensity r)
      else Inr (sentence, r))"

fun run_chain :: "engine \<Rightarrow> string list \<Rightarrow> string \<Rightarrow> real \<Rightarrow> rng \<Rightarrow> error + (string \<times> rng)" where
  "run_chain eng [] sentence intensity r = Inr (sentence, r)"
| "run_chain eng (name # names) sentence intensity r =
     (case technique eng name sentence intensity r of
        Inl e \<Rightarrow> Inl e
      | Inr (s, r1) \<Rightarrow> run_chain eng names s intensity r1)"

definition enabled :: "engine \<Rightarrow> string list \<Rightarrow> string list" where
  "enabled eng names = filter (\<lambda>name. name \<in> set (techniques eng)) names"

text \<open>The step that the fast pipeline adds after its techniques: a transition phrase in
  front of the lower-cased sentence, for every sentence but the first.\<close>

definition transition_step :: "nat \<Rightarrow> string \<Rightarrow> real \<Rightarrow> rng \<Rightarrow> string \<times> rng" where
  "transition_step i sentence intensity r =
     (if i > 0
      then (let (u, r1) = random r in
            if u < intensity * 0.3
            then (let (t, r2) = choice transitions r1 in (t @ '' '' @ lower sentence, r2))
            else (sentence, r1))
      else (sentence, r))"

section \<open>Composition, as the specification words it\<close>

text \<open>\<open>weave xs seps\<close> writes the sentences \<open>xs\<close> in order, with the \<open>k\<close>-th separator
  between the \<open>k\<close>-th sentence and the next.\<close>

fun weave :: "string list \<Rightarrow> string list \<Rightarrow> string" where
  "weave [] seps = []"
| "weave [x] seps = x"
| "weave (x # y # ys) [] = x @ weave (y # ys) []"
| "weave (x # y # ys) (sep # seps) = x @ sep @ weave (y # ys) seps"

text \<open>What \<^verbatim>\<open>' '.join(sentence.split())\<close> leaves of a sentence.\<close>

definition normalize_ws :: "string \<Rightarrow> string" where
  "normalize_ws sentence = join '' '' (split_ws sentence)"

section \<open>Example configuration\<close>

text \<open>The defaults of \<^verbatim>\<open>Settings\<close>.\<close>

definition default_settings :: settings where
  "default_settings =
     \<lparr> USE_GPU = True, MODEL_SIZE_FAST = ''small'', MODEL_SIZE_BALANCED = ''medium'',
       MODEL_SIZE_QUALITY = ''large'' \<rparr>"

text \<open>
  A backend for running the model on small inputs: the paraphraser is unreachable, the
  tagger knows the spaCy tokens of two sentences, and every pair of sentences is as
  similar as can be.
\<close>

definition example_tokens :: "(string \<times> (string \<times> string) list) list" where
  "example_tokens =
     [(''Hello there.'', [(''Hello'', ''INTJ''), (''there'', ''ADV''), (''.'', ''PUNCT'')]),
      (''It's good.'',
         [(''It'', ''PRON''), ([CHR 0x27, CHR ''s''], ''AUX''), (''good'', ''ADJ''), (''.'', ''PUNCT'')])]"

fun example_paraphraser :: "string \<Rightarrow> nat \<Rightarrow> real \<Rightarrow> error + string" where
  "example_paraphraser input max_length temperature = Inl ProviderError"

fun example_nlp :: "string \<Rightarrow> (string \<times> string) list" where
  "example_nlp sentence = (case map_of example_tokens sentence of Some toks \<Rightarrow> toks | None \<Rightarrow> [])"

fun example_cosine :: "string \<Rightarrow> string \<Rightarrow> real" where
  "example_cosine a b = 1"

definition example_backend :: backend where
  "example_backend =
     \<lparr> paraphrase_call = example_paraphraser, nlp = example_nlp, cosine = example_cosine \<rparr>"

fun example_loader :: "string \<Rightarrow> backend" where
  "example_loader msize = example_backend"

definition example_env :: environment where
  "example_env = \<lparr> cuda_available = False, load_models = example_loader \<rparr>"

definition example_service :: service where
  "example_service = initialize example_env default_settings HumanizerService"



text \<open>Requests for the single-text endpoint: one with a technique override, one without.\<close>

definition override_request :: humanize_request where
  "override_request =
     \<lparr> req_text = ''Hi.'', req_mode = ''quality'', req_intensity = 0,
       req_preserve_meaning = False, req_techniques = Some [''human_patterns''] \<rparr>"

definition plain_request :: humanize_request where
  "plain_request =
     \<lparr> req_text = ''Hi.'', req_mode = ''quality'', req_intensity = 0,
       req_preserve_meaning = False, req_techniques = None \<rparr>"

text \<open>An engine whose encoder finds every pair of sentences unrelated.\<close>

fun unrelated_cosine :: "string \<Rightarrow> string \<Rightarrow> real" where
  "unrelated_cosine a b = 0"

definition strict_engine :: engine where
  "strict_engine =
     \<lparr> device = ''cpu'', model_size = ''small'', techniques = [''human_patterns''],
       models = example_backend\<lparr>cosine := unrelated_cosine\<rparr> \<rparr>"

text \<open>A stream of draws that leaves the four edits of \<^verbatim>\<open>_add_human_patterns\<close> alone and
  then fires whatever comes next.\<close>

definition quiet_then_zero :: rng where
  "quiet_then_zero = 9/10 ## 9/10 ## 9/10 ## 9/10 ## sconst 0"

text \<open>Seven draws that fire every edit of one pass of \<^verbatim>\<open>_add_human_patterns\<close>, followed
  by draws that fire none.\<close>

definition fire_then_quiet :: rng where
  "fire_then_quiet = 0 ## 0 ## 0 ## 0 ## 0 ## 0 ## 0 ## sconst (9/10)"

definition formal_sentence :: string where
  "formal_sentence = ''It is not a good day for you''"

definition mutated_sentence :: string where
  "mutated_sentence = ''I'd say, it kind of isn't a good day for you''"


text \<open>Four draws that fire no edit of \<^verbatim>\<open>_add_human_patterns\<close>, then four that fire the
  filler, the contraction and the imperfection edit of a second pass, then draws that fire
  none.\<close>

definition quiet_then_three_fire :: rng where
  "quiet_then_three_fire =
     9/10 ## 9/10 ## 9/10 ## 9/10 ## 0 ## 0 ## 0 ## 0 ## sconst (9/10)"

section \<open>Evaluation rules\<close>

lemmas str_simps =
  split_ws_def is_space_def lower_def lower_char_def upper_char_def capitalize_def
  upper_letters_def lower_letters_def replace_def strip_def split_on_def

lemmas rng_simps = random_def choice_def randint_def Let_def

lemmas bank_simps =
  fillers_def contractions_def imperfections_def personal_touches_def questions_def
  transitions_def synonyms_def get_simple_synonyms_def

lemmas svc_simps =
  example_service_def initialize_def HumanizerService_def HumanizerEngine_def
  default_settings_def example_env_def example_backend_def get_humanizer_def put_humanizer_def

section \<open>Service initialisation and mode validation\<close>

text \<open>
  Claim C10. For every mode string, valid or not, \<^verbatim>\<open>get_humanizer\<close> on a service whose
  \<^verbatim>\<open>initialize\<close> has not completed raises \<^verbatim>\<open>RuntimeError\<close>; this holds in particular for
  a freshly constructed service. After \<^verbatim>\<open>initialize\<close>, \<^verbatim>\<open>get_humanizer\<close> does not raise
  for the modes fast, balanced and quality, and on a service that was fresh before it
  returns an engine.
\<close>

theorem get_humanizer_needs_initialize:
  "(\<not> initialized svc \<longrightarrow> get_humanizer svc m = Inl RuntimeError)
   \<and> get_humanizer HumanizerService m = Inl RuntimeError
   \<and> (m \<in> {''fast'', ''balanced'', ''quality''} \<longrightarrow>
        (\<exists>eng. get_humanizer (initialize env cfg HumanizerService) m = Inr (Some eng))
        \<and> (\<exists>res. get_humanizer (initialize env cfg svc) m = Inr res))"
  by (auto simp: get_humanizer_def initialize_def HumanizerService_def)

theorem get_humanizer_needs_initialize_witness:
  "\<not> initialized HumanizerService
   \<and> get_humanizer HumanizerService ''fast'' = Inl RuntimeError
   \<and> ''fast'' \<in> {''fast'', ''balanced'', ''quality''}
   \<and> (\<exists>eng. get_humanizer example_service ''fast'' = Inr (Some eng))"
  using get_humanizer_needs_initialize
          [of HumanizerService "''fast''" example_env default_settings]
  by (simp add: example_service_def HumanizerService_def)




section \<open>Technique overrides\<close>

text \<open>
  Claim C1 (the code departs from it). The quality engine of an initialised service has
  the five default techniques. A request to the single-text endpoint that overrides the
  techniques with \<open>human_patterns\<close> alone leaves that list in the shared engine, and the
  next request, which has no override, is processed with it and reports it.
\<close>

theorem override_persists_in_service:
  "map_option techniques (advanced_humanizer example_service) =
     Some [''sentence_variation'', ''perplexity_modulation'', ''stylistic_injection'',
           ''semantic_paraphrasing'', ''human_patterns'']
   \<and> map_option techniques
        (advanced_humanizer (fst (humanize_text example_service override_request (sconst (1/2)))))
       = Some [''human_patterns'']
   \<and> map_sum id (techniques_applied \<circ> fst)
        (snd (humanize_text (fst (humanize_text example_service override_request (sconst (1/2))))
                plain_request (sconst (1/2))))
       = Inr [''human_patterns'']"
  by (simp add: humanize_text_def override_request_def plain_request_def svc_simps humanize_def
        split_sentences_def full_humanize_def full_sentence_def apply_techniques_def
        add_human_patterns_def create_paragraph_variation_def vary_punctuation_def
        str_simps rng_simps)

section \<open>Empty input\<close>






section \<open>Paragraph composition keeps every sentence\<close>

lemma weave_join: "join sep xs = weave xs (replicate (length xs - 1) sep)"
  by (induction sep xs rule: join.induct) auto

lemma weave_append:
  "xs \<noteq> [] \<Longrightarrow> ys \<noteq> [] \<Longrightarrow> length sa = length xs - 1 \<Longrightarrow>
     weave (xs @ ys) (sa @ sep # sb) = weave xs sa @ sep @ weave ys sb"
proof (induction xs sa rule: weave.induct)
  case (1 seps)
  then show ?case by simp
next
  case (2 x seps)
  then show ?case by (cases ys) auto
next
  case (3 x y ys')
  then show ?case by simp
next
  case (4 x y ys' sep' seps)
  then show ?case by simp
qed

lemma join_groups_weave:
  "\<forall>g\<in>set groups. g \<noteq> [] \<Longrightarrow>
     \<exists>seps. length seps = length (concat groups) - 1 \<and> set seps \<subseteq> {a, b}
          \<and> join b (map (join a) groups) = weave (concat groups) seps"
proof (induction groups)
  case Nil
  then show ?case by simp
next
  case (Cons g gs)
  show ?case
  proof (cases gs)
    case Nil
    then show ?thesis
      by (intro exI[of _ "replicate (length g - 1) a"]) (auto simp: weave_join)
  next
    case (Cons g' gs')
    from Cons.prems Cons.IH obtain seps where
      s: "length seps = length (concat gs) - 1" "set seps \<subseteq> {a, b}"
         "join b (map (join a) gs) = weave (concat gs) seps"
      by auto
    have g: "g \<noteq> []" and c: "concat gs \<noteq> []" using Cons.prems Cons by auto
    let ?sa = "replicate (length g - 1) a"
    have "join b (map (join a) (g # gs)) = join a g @ b @ join b (map (join a) gs)"
      using Cons by simp
    also have "\<dots> = weave g ?sa @ b @ weave (concat gs) seps"
      using s by (simp add: weave_join)
    also have "\<dots> = weave (g @ concat gs) (?sa @ b # seps)"
      using weave_append[OF g c, of ?sa b seps] by simp
    finally have "join b (map (join a) (g # gs)) = weave (concat (g # gs)) (?sa @ b # seps)"
      by simp
    moreover have "length (?sa @ b # seps) = length (concat (g # gs)) - 1"
      using s g c by (cases g; cases "concat gs") auto
    moreover have "set (?sa @ b # seps) \<subseteq> {a, b}" using s by auto
    ultimately show ?thesis by blast
  qed
qed

lemma paragraph_loop_groups:
  "paragraph_loop intensity rest par res r = ((res', par'), r') \<Longrightarrow>
   rest \<noteq> [] \<or> par = [] \<Longrightarrow>
     par' = [] \<and>
     (\<exists>groups. res' = res @ map (join '' '') groups \<and> concat groups = par @ rest
        \<and> (\<forall>g\<in>set groups. g \<noteq> []))"
proof (induction rest arbitrary: par res r)
  case Nil
  then show ?case by (intro conjI exI[of _ "[]"]) auto
next
  case (Cons s rest)
  obtain n r1 where n: "(if intensity > 0.5 then randint 2 5 r else randint 3 6 r) = (n, r1)"
    by (cases "if intensity > 0.5 then randint 2 5 r else randint 3 6 r") auto
  show ?case
  proof (cases "int (length (par @ [s])) \<ge> n \<or> rest = []")
    case True
    then have "paragraph_loop intensity rest [] (res @ [join '' '' (par @ [s])]) r1
                = ((res', par'), r')"
      using Cons.prems(1) n by (simp add: Let_def)
    from Cons.IH[OF this] obtain groups where
      g: "par' = []" "res' = (res @ [join '' '' (par @ [s])]) @ map (join '' '') groups"
         "concat groups = [] @ rest" "\<forall>g\<in>set groups. g \<noteq> []"
      by auto
    show ?thesis
      using g by (intro conjI exI[of _ "(par @ [s]) # groups"]) auto
  next
    case False
    then have "paragraph_loop intensity rest (par @ [s]) res r1 = ((res', par'), r')"
      using Cons.prems(1) n by (simp add: Let_def)
    moreover have "rest \<noteq> [] \<or> par @ [s] = []" using False by auto
    ultimately obtain groups where
      g: "par' = []" "res' = res @ map (join '' '') groups"
         "concat groups = (par @ [s]) @ rest" "\<forall>g\<in>set groups. g \<noteq> []"
      using Cons.IH by blast
    show ?thesis using g by (intro conjI exI[of _ groups]) auto
  qed
qed

text \<open>
  Claim C8. For every list of processed sentences and every sequence of draws, the output
  of the paragraph composer is the input sentences, each once and in input order, with
  one separator between two consecutive sentences, and every separator is a single space
  or a double line break. After the loop no partial paragraph is left over, and when the
  loop made at most one paragraph the output is the sentences joined by single spaces.
\<close>

theorem composition_keeps_every_sentence:
  "snd (fst (paragraph_loop intensity sentences [] [] r)) = []
   \<and> (\<exists>seps. length seps = length sentences - 1 \<and> set seps \<subseteq> {'' '', paragraph_break}
         \<and> fst (create_paragraph_variation sentences intensity r) = weave sentences seps)
   \<and> (length (fst (fst (paragraph_loop intensity sentences [] [] r))) \<le> 1 \<longrightarrow>
        fst (create_paragraph_variation sentences intensity r) = join '' '' sentences)"
proof -
  obtain res par r' where
    l: "paragraph_loop intensity sentences [] [] r = ((res, par), r')"
    by (metis prod.exhaust)
  from paragraph_loop_groups[OF l] obtain groups where
    g: "par = []" "res = map (join '' '') groups" "concat groups = sentences"
       "\<forall>g\<in>set groups. g \<noteq> []"
    by auto
  have out: "fst (create_paragraph_variation sentences intensity r) =
               (if length res > 1 then join paragraph_break res else join '' '' sentences)"
    using l g(1) by (simp add: create_paragraph_variation_def)
  have "\<exists>seps. length seps = length sentences - 1 \<and> set seps \<subseteq> {'' '', paragraph_break}
         \<and> fst (create_paragraph_variation sentences intensity r) = weave sentences seps"
  proof (cases "length res > 1")
    case True
    then show ?thesis
      using join_groups_weave[OF g(4), of "'' ''" paragraph_break] g(2,3) out by auto
  next
    case False
    then show ?thesis
      using out
      by (intro exI[of _ "replicate (length sentences - 1) '' ''"]) (auto simp: weave_join)
  qed
  then show ?thesis using l g(1) out by auto
qed

theorem composition_keeps_every_sentence_witness:
  "snd (fst (paragraph_loop 1 [''a'', ''b'', ''c''] [] [] (sconst 0))) = []
   \<and> fst (create_paragraph_variation [''a'', ''b'', ''c''] 1 (sconst 0))
       = weave [''a'', ''b'', ''c''] ['' '', paragraph_break]
   \<and> length (fst (fst (paragraph_loop 1 [''a'', ''b''] [] [] (sconst 0)))) \<le> 1
   \<and> fst (create_paragraph_variation [''a'', ''b''] 1 (sconst 0)) = ''a b''"
  using composition_keeps_every_sentence [of 1 "[''a'', ''b'', ''c'']" "sconst 0"]
        composition_keeps_every_sentence [of 1 "[''a'', ''b'']" "sconst 0"]
  by (simp add: create_paragraph_variation_def rng_simps paragraph_break_def)

section \<open>The semantic gate\<close>

lemma human_patterns_quiet:
  "intensity * 0.2 \<le> shd r \<Longrightarrow> intensity * 0.4 \<le> shd (stl r) \<Longrightarrow>
   intensity * 0.05 \<le> shd (stl (stl r)) \<Longrightarrow> intensity * 0.15 \<le> shd (stl (stl (stl r))) \<Longrightarrow>
     add_human_patterns sentence intensity r = (sentence, stl (stl (stl (stl r))))"
  by (simp add: add_human_patterns_def random_def Let_def)

text \<open>
  Claim C4, amended. In the full pipeline with meaning preservation on, when the cosine
  similarity of the original and the mutated sentence is below 0.7, the mutated sentence
  is discarded and the sentence that goes to the output is the result of
  \<^verbatim>\<open>_add_human_patterns\<close> on the original sentence at half the intensity, run on the
  generator as the technique steps left it. That result is the bare original whenever none
  of the four draws of the pass is below its threshold.
\<close>

theorem gate_reverts_to_light_patterns:
  "apply_techniques eng original intensity r = Inr (mutated, r1) \<Longrightarrow>
   cosine (models eng) original mutated < 0.7 \<Longrightarrow>
     full_sentence eng original intensity True r
       = Inr (add_human_patterns original (intensity * 0.5) r1)
     \<and> (intensity * 0.5 * 0.2 \<le> shd r1 \<and> intensity * 0.5 * 0.4 \<le> shd (stl r1)
        \<and> intensity * 0.5 * 0.05 \<le> shd (stl (stl r1))
        \<and> intensity * 0.5 * 0.15 \<le> shd (stl (stl (stl r1)))
        \<longrightarrow> fst (add_human_patterns original (intensity * 0.5) r1) = original)"
  using human_patterns_quiet [of "intensity * 0.5" r1 original]
  by (simp add: full_sentence_def)

theorem gate_reverts_to_light_patterns_witness:
  "apply_techniques strict_engine formal_sentence 1 fire_then_quiet
     = Inr (mutated_sentence, sconst (9/10))
   \<and> cosine (models strict_engine) formal_sentence mutated_sentence < 0.7
   \<and> 1 * 0.5 * 0.4 \<le> shd (sconst (9/10 :: real))
   \<and> full_sentence strict_engine formal_sentence 1 True fire_then_quiet
     = Inr (formal_sentence, sconst (9/10))"
proof -
  have a: "apply_techniques strict_engine formal_sentence 1 fire_then_quiet
             = Inr (mutated_sentence, sconst (9/10))"
    by (simp add: apply_techniques_def strict_engine_def formal_sentence_def mutated_sentence_def
          fire_then_quiet_def add_human_patterns_def str_simps rng_simps bank_simps)
  have c: "cosine (models strict_engine) formal_sentence mutated_sentence < 0.7"
    by (simp add: strict_engine_def example_backend_def)
  have q: "add_human_patterns formal_sentence (1 * 0.5) (sconst (9/10))
             = (formal_sentence, sconst (9/10))"
    using human_patterns_quiet [of "1 * 0.5" "sconst (9/10)" formal_sentence] by simp
  show ?thesis
    using a c q gate_reverts_to_light_patterns [OF a c] by simp
qed

text \<open>
  Claim C4 as stated fails in two places. With draws that are all 0 the technique steps
  turn \<open>Hi.\<close> into \<open>I'd say, hi.\<close>, the gate reverts, and the pass on the original gives
  \<open>I'd say, hi.\<close> again: the final sentence is the mutated sentence. And with a pass whose
  filler, contraction and imperfection draws are below their thresholds the final sentence
  is the bare original, since none of the three edits finds anything to change in \<open>Hi.\<close>.
\<close>

theorem gate_output_counterexample:
  "cosine (models strict_engine) ''Hi.'' ''I'd say, hi.'' < 0.7
   \<and> apply_techniques strict_engine ''Hi.'' 1 (sconst 0) = Inr (''I'd say, hi.'', sconst 0)
   \<and> full_sentence strict_engine ''Hi.'' 1 True (sconst 0) = Inr (''I'd say, hi.'', sconst 0)
   \<and> cosine (models strict_engine) ''Hi.'' ''Hi.'' < 0.7
   \<and> apply_techniques strict_engine ''Hi.'' 1 quiet_then_three_fire
       = Inr (''Hi.'', 0 ## 0 ## 0 ## 0 ## sconst (9/10))
   \<and> shd (0 ## 0 ## 0 ## 0 ## sconst (9/10 :: real)) < 1 * 0.5 * 0.2
   \<and> full_sentence strict_engine ''Hi.'' 1 True quiet_then_three_fire
       = Inr (''Hi.'', sconst (9/10))"
  by (simp add: full_sentence_def apply_techniques_def strict_engine_def example_backend_def
        quiet_then_three_fire_def add_human_patterns_def str_simps rng_simps bank_simps)

section \<open>The order of the techniques\<close>

text \<open>
  Claim C7, amended. The technique steps of the full pipeline are exactly the enabled
  techniques, applied in the fixed order semantic_paraphrasing, sentence_variation,
  perplexity_modulation, stylistic_injection, human_patterns. The fast pipeline applies
  of the enabled techniques only sentence_variation and human_patterns, in that order, and
  then runs one more step: for every sentence but the first it may put a transition phrase
  in front of the lower-cased sentence.
\<close>

theorem technique_order:
  "apply_techniques eng sentence intensity r
     = run_chain eng (enabled eng fixed_order) sentence intensity r
   \<and> Inr (fast_sentence eng i sentence intensity r)
     = (case run_chain eng (enabled eng [''sentence_variation'', ''human_patterns''])
               sentence intensity r of
          Inl e \<Rightarrow> Inl e
        | Inr (s, r1) \<Rightarrow> Inr (transition_step i s intensity r1))"
proof
  show "apply_techniques eng sentence intensity r
     = run_chain eng (enabled eng fixed_order) sentence intensity r"
    by (simp add: apply_techniques_def enabled_def fixed_order_def technique_def Let_def
          split: prod.splits sum.splits)
  show "Inr (fast_sentence eng i sentence intensity r)
     = (case run_chain eng (enabled eng [''sentence_variation'', ''human_patterns''])
               sentence intensity r of
          Inl e \<Rightarrow> Inl e
        | Inr (s, r1) \<Rightarrow> Inr (transition_step i s intensity r1))"
    by (simp add: fast_sentence_def enabled_def technique_def transition_step_def Let_def
          split: prod.splits)
qed

theorem technique_order_witness:
  "apply_techniques strict_engine formal_sentence 1 fire_then_quiet
     = run_chain strict_engine [''human_patterns''] formal_sentence 1 fire_then_quiet
   \<and> fast_sentence strict_engine 1 ''b.'' 1 quiet_then_zero = (''Actually, b.'', sconst 0)"
  using technique_order [of strict_engine formal_sentence 1 fire_then_quiet 1]
        technique_order [of strict_engine "''b.''" 1 quiet_then_zero 1]
  by (simp add: enabled_def fixed_order_def strict_engine_def technique_def transition_step_def
        quiet_then_zero_def add_human_patterns_def str_simps rng_simps bank_simps)

text \<open>
  Claim C7 as stated fails for the fast pipeline: on the second sentence of a text, with
  draws that leave both techniques of the fast tier idle, the enabled techniques return
  the sentence as it is, and the fast pipeline returns it with a transition phrase.
\<close>

theorem fast_mode_adds_transition_counterexample:
  "run_chain (the (fast_humanizer example_service))
        (enabled (the (fast_humanizer example_service)) fixed_order) ''b.'' 1 quiet_then_zero
     = Inr (''b.'', sconst 0)
   \<and> fast_sentence (the (fast_humanizer example_service)) 1 ''b.'' 1 quiet_then_zero
     = (''Actually, b.'', sconst 0)"
  by (simp add: fast_sentence_def svc_simps enabled_def fixed_order_def technique_def
        quiet_then_zero_def vary_sentence_structure_def add_human_patterns_def
        str_simps rng_simps bank_simps)

section \<open>The batch endpoint\<close>







section \<open>A fault in one sentence\<close>

text \<open>
  Claim C2 (the code departs from it). The quality engine processes the sentence
  \<open>Hello there.\<close> without an exception. In the document \<open>Hello there. It's good.\<close> the
  second sentence has two words and four tokens; the substitution for the third token
  raises \<^verbatim>\<open>IndexError\<close> inside \<^verbatim>\<open>_modulate_perplexity\<close>, \<^verbatim>\<open>humanize\<close> raises it, and
  the endpoint answers the request with status 500.
\<close>

theorem sentence_fault_aborts_document:
  "humanize (the (advanced_humanizer example_service)) ''Hello there.'' 1 False False
      (sconst (1/20))
     = Inr (''I'd say, you kind of know what? hello there.'', sconst (1/20))
   \<and> humanize (the (advanced_humanizer example_service)) ''Hello there. It's good.'' 1 False
        False (sconst (1/20))
     = Inl IndexError
   \<and> snd (humanize_text example_service
            \<lparr> req_text = ''Hello there. It's good.'', req_mode = ''quality'', req_intensity = 1,
              req_preserve_meaning = False, req_techniques = None \<rparr> (sconst (1/20)))
     = Inl (HTTPException 500)"
  by (simp add: humanize_text_def svc_simps humanize_def split_sentences_def full_humanize_def
        full_sentence_def apply_techniques_def add_human_patterns_def paraphrase_sentence_def
        vary_sentence_structure_def modulate_perplexity_def inject_style_def example_tokens_def
        create_paragraph_variation_def str_simps rng_simps bank_simps)

section \<open>Intensity zero\<close>

lemma sset_stl_subset: "sset (stl r) \<subseteq> sset r"
  by (auto intro: stl_sset)

lemma draws_shd: "\<forall>x\<in>sset r. P x \<Longrightarrow> P (shd r)"
  by (simp add: shd_sset)

lemma draws_stl: "\<forall>x\<in>sset r. P x \<Longrightarrow> \<forall>x\<in>sset (stl r). P x"
  by (auto intro: stl_sset)

lemma vary_zero:
  assumes "\<forall>x\<in>sset r. (0::real) \<le> x"
  shows "\<exists>r'. vary_sentence_structure sentence 0 r = (sentence, r') \<and> sset r' \<subseteq> sset r"
proof -
  have a: "\<not> shd r < 0" "\<not> shd (stl r) < 0"
    using assms draws_shd[OF assms] draws_shd[OF draws_stl[OF assms]] by auto
  have s: "sset (stl r) \<subseteq> sset r" "sset (stl (stl r)) \<subseteq> sset r"
    using sset_stl_subset[of r] sset_stl_subset[of "stl r"] by auto
  show ?thesis
    using a s by (simp add: vary_sentence_structure_def random_def Let_def)
qed

lemma patterns_zero:
  assumes "\<forall>x\<in>sset r. (0::real) \<le> x"
  shows "\<exists>r'. add_human_patterns sentence 0 r = (sentence, r') \<and> sset r' \<subseteq> sset r"
proof -
  have d: "0 \<le> shd r" "0 \<le> shd (stl r)" "0 \<le> shd (stl (stl r))" "0 \<le> shd (stl (stl (stl r)))"
    using draws_shd[OF assms] draws_shd[OF draws_stl[OF assms]]
      draws_shd[OF draws_stl[OF draws_stl[OF assms]]]
      draws_shd[OF draws_stl[OF draws_stl[OF draws_stl[OF assms]]]]
    by auto
  have "add_human_patterns sentence 0 r = (sentence, stl (stl (stl (stl r))))"
    using human_patterns_quiet[of 0 r sentence] d by simp
  moreover have "sset (stl (stl (stl (stl r)))) \<subseteq> sset r"
    using sset_stl_subset[of r] sset_stl_subset[of "stl r"] sset_stl_subset[of "stl (stl r)"]
      sset_stl_subset[of "stl (stl (stl r))"] by blast
  ultimately show ?thesis by simp
qed

lemma paraphrase_zero:
  "0 < shd r \<Longrightarrow> paraphrase_sentence eng sentence 0 r = (sentence, stl r)"
  by (simp add: paraphrase_sentence_def random_def)

lemma inject_zero:
  "0 < shd r \<Longrightarrow> inject_style sentence 0 r = (sentence, stl r)"
  by (simp add: inject_style_def random_def)

lemma modulate_tokens_zero:
  "\<forall>x\<in>sset r. (0::real) \<le> x \<Longrightarrow>
     \<exists>r'. modulate_tokens toks i 0 ws r = Inr (ws, r') \<and> sset r' \<subseteq> sset r"
proof (induction toks arbitrary: i r)
  case Nil
  then show ?case by simp
next
  case (Cons tok toks)
  obtain tx ps where tok: "tok = (tx, ps)" by (cases tok)
  have n: "\<not> shd r < 0" using draws_shd[OF Cons.prems] by auto
  from Cons.IH[OF draws_stl[OF Cons.prems], of "Suc i"] obtain r' where
    "modulate_tokens toks (Suc i) 0 ws (stl r) = Inr (ws, r')" "sset r' \<subseteq> sset (stl r)"
    by blast
  then show ?case
    using n tok sset_stl_subset[of r] by (auto simp: random_def)
qed

lemma perplexity_zero:
  assumes "\<forall>x\<in>sset r. (0::real) \<le> x"
  shows "\<exists>r'. modulate_perplexity eng sentence 0 r = Inr (normalize_ws sentence, r')
            \<and> sset r' \<subseteq> sset r"
proof -
  from modulate_tokens_zero[OF assms, of "nlp (models eng) sentence" 0 "split_ws sentence"]
  obtain r' where
    "modulate_tokens (nlp (models eng) sentence) 0 0 (split_ws sentence) r
       = Inr (split_ws sentence, r')" "sset r' \<subseteq> sset r"
    by blast
  then show ?thesis by (simp add: modulate_perplexity_def normalize_ws_def)
qed

lemma fast_sentence_zero:
  assumes "\<forall>x\<in>sset r. (0::real) \<le> x"
  shows "\<exists>r'. fast_sentence eng i sentence 0 r = (sentence, r') \<and> sset r' \<subseteq> sset r"
proof -
  obtain r1 where r1:
    "(if ''sentence_variation'' \<in> set (techniques eng)
      then vary_sentence_structure sentence 0 r else (sentence, r)) = (sentence, r1)"
    "sset r1 \<subseteq> sset r"
    using vary_zero[OF assms, of sentence] by (cases "''sentence_variation'' \<in> set (techniques eng)") auto
  have p1: "\<forall>x\<in>sset r1. 0 \<le> x" using assms r1(2) by blast
  obtain r2 where r2:
    "(if ''human_patterns'' \<in> set (techniques eng)
      then add_human_patterns sentence 0 r1 else (sentence, r1)) = (sentence, r2)"
    "sset r2 \<subseteq> sset r1"
    using patterns_zero[OF p1, of sentence] by (cases "''human_patterns'' \<in> set (techniques eng)") auto
  have p2: "\<forall>x\<in>sset r2. 0 \<le> x" using p1 r2(2) by blast
  have n: "\<not> shd r2 < 0" using draws_shd[OF p2] by auto
  have "fast_sentence eng i sentence 0 r = (sentence, if i > 0 then stl r2 else r2)"
    using r1(1) r2(1) n by (simp add: fast_sentence_def random_def Let_def)
  moreover have "sset (if i > 0 then stl r2 else r2) \<subseteq> sset r"
    using r1(2) r2(2) sset_stl_subset[of r2] by auto
  ultimately show ?thesis by blast
qed

lemma fast_loop_zero:
  "\<forall>x\<in>sset r. (0::real) \<le> x \<Longrightarrow>
     \<exists>r'. fast_loop eng 0 i sentences r = (sentences, r') \<and> sset r' \<subseteq> sset r"
proof (induction sentences arbitrary: i r)
  case Nil
  then show ?case by simp
next
  case (Cons s sentences)
  from fast_sentence_zero[OF Cons.prems, of eng i s] obtain r1 where
    r1: "fast_sentence eng i s 0 r = (s, r1)" "sset r1 \<subseteq> sset r" by blast
  have "\<forall>x\<in>sset r1. 0 \<le> x" using Cons.prems r1(2) by blast
  from Cons.IH[OF this, of "Suc i"] obtain r2 where
    r2: "fast_loop eng 0 (Suc i) sentences r1 = (sentences, r2)" "sset r2 \<subseteq> sset r1" by blast
  show ?case using r1 r2 by auto
qed

lemma apply_techniques_zero:
  assumes "\<forall>x\<in>sset r. (0::real) < x"
  shows "\<exists>r'. apply_techniques eng sentence 0 r
            = Inr (if ''perplexity_modulation'' \<in> set (techniques eng)
                   then normalize_ws sentence else sentence, r')
          \<and> sset r' \<subseteq> sset r"
proof -
  let ?out = "if ''perplexity_modulation'' \<in> set (techniques eng)
              then normalize_ws sentence else sentence"
  have nn: "\<And>q. sset q \<subseteq> sset r \<Longrightarrow> (\<forall>x\<in>sset q. 0 \<le> x) \<and> 0 < shd q"
    using assms shd_sset by (metis less_eq_real_def subsetD)
  obtain r1 where r1:
    "(if ''semantic_paraphrasing'' \<in> set (techniques eng)
      then paraphrase_sentence eng sentence 0 r else (sentence, r)) = (sentence, r1)"
    "sset r1 \<subseteq> sset r"
    using paraphrase_zero[of r eng sentence] nn[of r] sset_stl_subset[of r]
    by (cases "''semantic_paraphrasing'' \<in> set (techniques eng)") auto
  obtain r2 where r2:
    "(if ''sentence_variation'' \<in> set (techniques eng)
      then vary_sentence_structure sentence 0 r1 else (sentence, r1)) = (sentence, r2)"
    "sset r2 \<subseteq> sset r"
    using vary_zero[of r1 sentence] nn[OF r1(2)] r1(2)
    by (cases "''sentence_variation'' \<in> set (techniques eng)") auto
  obtain r3 where r3:
    "(if ''perplexity_modulation'' \<in> set (techniques eng)
      then modulate_perplexity eng sentence 0 r2 else Inr (sentence, r2)) = Inr (?out, r3)"
    "sset r3 \<subseteq> sset r"
    using perplexity_zero[of r2 eng sentence] nn[OF r2(2)] r2(2)
    by (cases "''perplexity_modulation'' \<in> set (techniques eng)") auto
  obtain r4 where r4:
    "(if ''stylistic_injection'' \<in> set (techniques eng)
      then inject_style ?out 0 r3 else (?out, r3)) = (?out, r4)"
    "sset r4 \<subseteq> sset r"
    using inject_zero[of r3 ?out] nn[OF r3(2)] r3(2) sset_stl_subset[of r3]
    by (cases "''stylistic_injection'' \<in> set (techniques eng)") auto
  obtain r5 where r5:
    "(if ''human_patterns'' \<in> set (techniques eng)
      then add_human_patterns ?out 0 r4 else (?out, r4)) = (?out, r5)"
    "sset r5 \<subseteq> sset r"
    using patterns_zero[of r4 ?out] nn[OF r4(2)] r4(2)
    by (cases "''human_patterns'' \<in> set (techniques eng)") auto
  have "apply_techniques eng sentence 0 r = Inr (?out, r5)"
    unfolding apply_techniques_def Let_def r1(1) r2(1) prod.case r3(1) sum.case r4(1) r5(1) ..
  then show ?thesis using r5(2) by blast
qed

lemma full_loop_zero:
  "\<forall>x\<in>sset r. (0::real) < x \<Longrightarrow>
     \<exists>r'. full_loop eng 0 False sentences r
            = Inr (map (\<lambda>s. if ''perplexity_modulation'' \<in> set (techniques eng)
                            then normalize_ws s else s) sentences, r')
          \<and> sset r' \<subseteq> sset r"
proof (induction sentences arbitrary: r)
  case Nil
  then show ?case by simp
next
  case (Cons s sentences)
  from apply_techniques_zero[OF Cons.prems, of eng s] obtain r1 where
    r1: "apply_techniques eng s 0 r
           = Inr (if ''perplexity_modulation'' \<in> set (techniques eng)
                  then normalize_ws s else s, r1)" "sset r1 \<subseteq> sset r"
    by blast
  have "\<forall>x\<in>sset r1. 0 < x" using Cons.prems r1(2) by blast
  from Cons.IH[OF this] obtain r2 where
    r2: "full_loop eng 0 False sentences r1
           = Inr (map (\<lambda>s. if ''perplexity_modulation'' \<in> set (techniques eng)
                           then normalize_ws s else s) sentences, r2)" "sset r2 \<subseteq> sset r1"
    by blast
  show ?case using r1 r2 by (auto simp: full_sentence_def)
qed

text \<open>
  Claim C5, amended. For every input text and every sequence of draws that are not
  negative, the fast pipeline at intensity 0 changes no sentence: \<^verbatim>\<open>humanize\<close> returns
  the paragraph composition of the sentences of the input. In the full pipeline with the
  gate off, at intensity 0 and with draws that are all strictly positive, no technique
  inserts or substitutes anything: every sentence is output as it was split, except that
  perplexity_modulation, when it is enabled, rejoins the words of the sentence with single
  spaces.
\<close>

theorem intensity_zero_keeps_sentences:
  "(\<forall>x\<in>sset r. (0::real) \<le> x) \<longrightarrow>
     (\<exists>r1. fast_loop eng 0 0 (split_sentences text) r = (split_sentences text, r1)
        \<and> humanize eng text 0 preserve_meaning True r
            = Inr (create_paragraph_variation (split_sentences text) 0 r1))
   \<and> ((\<forall>x\<in>sset r. 0 < x) \<longrightarrow>
        (\<exists>r1. full_loop eng 0 False (split_sentences text) r
                = Inr (map (\<lambda>s. if ''perplexity_modulation'' \<in> set (techniques eng)
                                then normalize_ws s else s) (split_sentences text), r1)
           \<and> humanize eng text 0 False False r
               = Inr (create_paragraph_variation
                        (map (\<lambda>s. if ''perplexity_modulation'' \<in> set (techniques eng)
                                  then normalize_ws s else s) (split_sentences text)) 0 r1)))"
proof (intro impI conjI)
  assume a: "\<forall>x\<in>sset r. (0::real) \<le> x"
  from fast_loop_zero[OF a, of eng 0 "split_sentences text"] obtain r1 where
    "fast_loop eng 0 0 (split_sentences text) r = (split_sentences text, r1)" by blast
  then show "\<exists>r1. fast_loop eng 0 0 (split_sentences text) r = (split_sentences text, r1)
        \<and> humanize eng text 0 preserve_meaning True r
            = Inr (create_paragraph_variation (split_sentences text) 0 r1)"
    by (simp add: humanize_def fast_humanize_def)
next
  assume a: "\<forall>x\<in>sset r. (0::real) \<le> x" and b: "\<forall>x\<in>sset r. (0::real) < x"
  from full_loop_zero[OF b, of eng "split_sentences text"] obtain r1 where
    "full_loop eng 0 False (split_sentences text) r
                = Inr (map (\<lambda>s. if ''perplexity_modulation'' \<in> set (techniques eng)
                                then normalize_ws s else s) (split_sentences text), r1)" by blast
  then show "\<exists>r1. full_loop eng 0 False (split_sentences text) r
                = Inr (map (\<lambda>s. if ''perplexity_modulation'' \<in> set (techniques eng)
                                then normalize_ws s else s) (split_sentences text), r1)
           \<and> humanize eng text 0 False False r
               = Inr (create_paragraph_variation
                        (map (\<lambda>s. if ''perplexity_modulation'' \<in> set (techniques eng)
                                  then normalize_ws s else s) (split_sentences text)) 0 r1)"
    by (simp add: humanize_def full_humanize_def)
qed

theorem intensity_zero_keeps_sentences_witness:
  "sset (sconst (1/2 :: real)) \<subseteq> {x. 0 < x}
   \<and> humanize (the (fast_humanizer example_service))
        ''The cat sat on the mat. It was a sunny day.'' 0 True True (sconst (1/2))
     = Inr (''The cat sat on the mat. It was a sunny day.'', sconst (1/2))
   \<and> humanize (the (advanced_humanizer example_service)) ''a  b.'' 0 False False (sconst (1/2))
     = Inr (''a b.'', sconst (1/2))"
proof -
  have p: "\<forall>x\<in>sset (sconst (1/2 :: real)). 0 \<le> x" "\<forall>x\<in>sset (sconst (1/2 :: real)). 0 < x"
    by simp_all
  have f: "split_sentences ''The cat sat on the mat. It was a sunny day.''
             = [''The cat sat on the mat.'', ''It was a sunny day.'']"
    by (simp add: split_sentences_def str_simps)
  have g: "split_sentences ''a  b.'' = [''a  b.'']"
    by (simp add: split_sentences_def str_simps)
  obtain r1 where r1:
    "humanize (the (fast_humanizer example_service))
        ''The cat sat on the mat. It was a sunny day.'' 0 True True (sconst (1/2))
       = Inr (create_paragraph_variation
                [''The cat sat on the mat.'', ''It was a sunny day.''] 0 r1)"
    "fast_loop (the (fast_humanizer example_service)) 0 0
        [''The cat sat on the mat.'', ''It was a sunny day.''] (sconst (1/2))
       = ([''The cat sat on the mat.'', ''It was a sunny day.''], r1)"
    using intensity_zero_keeps_sentences
            [of "sconst (1/2)" "the (fast_humanizer example_service)"
                "''The cat sat on the mat. It was a sunny day.''" True] p f
    by auto
  have "r1 = sconst (1/2)"
    using r1(2)
    by (simp add: svc_simps fast_sentence_def vary_sentence_structure_def
          add_human_patterns_def str_simps rng_simps)
  then have a: "humanize (the (fast_humanizer example_service))
        ''The cat sat on the mat. It was a sunny day.'' 0 True True (sconst (1/2))
     = Inr (''The cat sat on the mat. It was a sunny day.'', sconst (1/2))"
    using r1(1) by (simp add: create_paragraph_variation_def rng_simps)
  have b: "humanize (the (advanced_humanizer example_service)) ''a  b.'' 0 False False
             (sconst (1/2)) = Inr (''a b.'', sconst (1/2))"
    by (simp add: svc_simps humanize_def split_sentences_def full_humanize_def
          full_sentence_def apply_techniques_def add_human_patterns_def paraphrase_sentence_def
          vary_sentence_structure_def modulate_perplexity_def inject_style_def
          example_tokens_def create_paragraph_variation_def str_simps rng_simps bank_simps)
  show ?thesis using a b by simp
qed

text \<open>
  Claim C5 as stated fails in the full pipeline with the gate off. A draw of exactly 0 is
  not greater than the intensity 0, so stylistic_injection runs and puts a question in
  front of the sentence; and with draws of one half perplexity_modulation returns a
  sentence with two spaces between its words with one space there.
\<close>

theorem intensity_zero_mutates_counterexample:
  "sset (sconst (0 :: real)) \<subseteq> {x. 0 \<le> x \<and> x < 1}
   \<and> humanize (the (advanced_humanizer example_service)) ''Hi.'' 0 False False (sconst 0)
     = Inr (''You know what? Hi.'', sconst 0)
   \<and> sset (sconst (1/2 :: real)) \<subseteq> {x. 0 \<le> x \<and> x < 1}
   \<and> humanize (the (advanced_humanizer example_service)) ''a  b.'' 0 False False (sconst (1/2))
     = Inr (''a b.'', sconst (1/2))"
  by (simp add: svc_simps humanize_def split_sentences_def full_humanize_def
        full_sentence_def apply_techniques_def add_human_patterns_def paraphrase_sentence_def
        vary_sentence_structure_def modulate_perplexity_def inject_style_def example_tokens_def
        create_paragraph_variation_def str_simps rng_simps bank_simps)

end
